theory Spec2Isabelle
  imports Main
begin

section \<open>Documents\<close>

text \<open>
  The values that \<open>yaml.safe_load\<close> and \<open>json.load\<close> hand to the program: null, booleans,
  numbers, strings, lists and dictionaries. Numbers are restricted to Python's unbounded
  integers (floats are not modelled). A dictionary is an association list in insertion
  order; a loaded dictionary has no repeated key.
\<close>

datatype json =
    JNull
  | JBool bool
  | JInt int
  | JStr string
  | JArr "json list"
  | JObj "(string \<times> json) list"

text \<open>Python's truth value of a document, as tested by \<open>if not policy_data\<close>.\<close>

fun truthy :: "json \<Rightarrow> bool" where
  "truthy JNull = False"
| "truthy (JBool b) = b"
| "truthy (JInt n) = (n \<noteq> 0)"
| "truthy (JStr s) = (s \<noteq> [])"
| "truthy (JArr xs) = (xs \<noteq> [])"
| "truthy (JObj kvs) = (kvs \<noteq> [])"

section \<open>Exceptions\<close>

text \<open>
  One finding of the validator: the schema keyword that failed (\<open>None\<close> for the
  \<open>false\<close> schema) and the path of keys and indices from the root of the instance.
\<close>

datatype pelem = Key string | Index nat

record verror =
  err_validator :: "string option"
  err_path :: "pelem list"

text \<open>
  The exception classes the handlers of \<open>main.py\<close> tell apart. \<open>ValueError\<close> stands
  for a \<open>ValueError\<close> that is not a \<open>JSONDecodeError\<close>, \<open>OtherException\<close> for any
  other subclass of \<open>Exception\<close> (named by its class), and \<open>NonException\<close> for a
  \<open>BaseException\<close> outside \<open>Exception\<close> (\<open>KeyboardInterrupt\<close>, for instance), which
  \<open>except Exception\<close> does not catch.
\<close>

datatype exn =
    ValidationError verror
  | SchemaError
  | FileNotFoundError string
  | YAMLError
  | JSONDecodeError
  | ValueError string
  | OtherException string
  | NonException string

fun is_ValidationError :: "exn \<Rightarrow> bool" where
  "is_ValidationError (ValidationError _) = True"
| "is_ValidationError _ = False"

fun is_SchemaError :: "exn \<Rightarrow> bool" where
  "is_SchemaError SchemaError = True"
| "is_SchemaError _ = False"

fun is_FileNotFoundError :: "exn \<Rightarrow> bool" where
  "is_FileNotFoundError (FileNotFoundError _) = True"
| "is_FileNotFoundError _ = False"

fun is_parse_error :: "exn \<Rightarrow> bool" where
  "is_parse_error YAMLError = True"
| "is_parse_error JSONDecodeError = True"
| "is_parse_error _ = False"

text \<open>\<open>json.JSONDecodeError\<close> derives from \<open>ValueError\<close>.\<close>

fun is_ValueError :: "exn \<Rightarrow> bool" where
  "is_ValueError (ValueError _) = True"
| "is_ValueError JSONDecodeError = True"
| "is_ValueError _ = False"

fun is_Exception :: "exn \<Rightarrow> bool" where
  "is_Exception (NonException _) = False"
| "is_Exception _ = True"

section \<open>Logging\<close>

text \<open>
  The root logger: its level and the records it has emitted, oldest first. A record is
  its level and its message; a message formatted from an exception keeps the exception
  beside the literal text in front of it. Time stamps are not modelled.
\<close>

datatype loglevel = DEBUG | INFO | WARNING | ERROR | CRITICAL

fun levelno :: "loglevel \<Rightarrow> nat" where
  "levelno DEBUG = 10"
| "levelno INFO = 20"
| "levelno WARNING = 30"
| "levelno ERROR = 40"
| "levelno CRITICAL = 50"

type_synonym logmsg = "string \<times> exn option"

record logger =
  level :: loglevel
  records :: "(loglevel \<times> logmsg) list"

definition emit :: "loglevel \<Rightarrow> logmsg \<Rightarrow> logger \<Rightarrow> logger" where
  "emit l m lg =
     (if levelno (level lg) \<le> levelno l then lg\<lparr>records := records lg @ [(l, m)]\<rparr> else lg)"

definition logging_error :: "logmsg \<Rightarrow> logger \<Rightarrow> logger" where
  "logging_error = emit ERROR"

definition logging_warning :: "logmsg \<Rightarrow> logger \<Rightarrow> logger" where
  "logging_warning = emit WARNING"

definition logging_info :: "logmsg \<Rightarrow> logger \<Rightarrow> logger" where
  "logging_info = emit INFO"

section \<open>validate_data\<close>

text \<open>
  \<open>validate_data(data, schema)\<close> calls the imported \<open>jsonschema.validate\<close>, here the
  parameter \<open>validate\<close>: it returns (\<open>Inr ()\<close>) or raises (\<open>Inl e\<close>). The three handlers
  are tried in the order of the source; an exception that none of them matches leaves
  the function (\<open>Inl\<close>).
\<close>

definition validate_data ::
  "(json \<Rightarrow> json \<Rightarrow> exn + unit) \<Rightarrow> json \<Rightarrow> json \<Rightarrow> logger \<Rightarrow> (exn + bool) \<times> logger" where
  "validate_data validate data schema lg =
     (case validate data schema of
        Inr _ \<Rightarrow> (Inr True, lg)
      | Inl e \<Rightarrow>
          if is_ValidationError e then
            (Inr False, logging_error (''Validation Error: '', Some e) lg)
          else if is_SchemaError e then
            (Inr False, logging_error (''Schema Error: '', Some e) lg)
          else if is_Exception e then
            (Inr False,
             logging_error (''An unexpected error occurred during validation: '', Some e) lg)
          else (Inl e, lg))"

section \<open>load_data\<close>

text \<open>
  The file system and the two parsers are parameters: \<open>open_file\<close> gives the content of
  a file or raises, and each parser gives the document or raises.
\<close>

record env =
  open_file :: "string \<Rightarrow> exn + string"
  yaml_safe_load :: "string \<Rightarrow> exn + json"
  json_load :: "string \<Rightarrow> exn + json"

definition endswith :: "string \<Rightarrow> string \<Rightarrow> bool" where
  "endswith s suf = (length suf \<le> length s \<and> drop (length s - length suf) s = suf)"

definition load_handlers :: "string \<Rightarrow> exn \<Rightarrow> logger \<Rightarrow> (exn + json) \<times> logger" where
  "load_handlers file_path e lg =
     (if is_FileNotFoundError e then
        (Inl e, logging_error (''File not found: '' @ file_path, None) lg)
      else if is_parse_error e then
        (Inl (ValueError (''Invalid YAML or JSON format in '' @ file_path)),
         logging_error (''Error parsing file: '' @ file_path @ '' - '', Some e) lg)
      else if is_Exception e then
        (Inl e, logging_error (''An unexpected error occurred: '', Some e) lg)
      else (Inl e, lg))"

definition load_data :: "env \<Rightarrow> string \<Rightarrow> logger \<Rightarrow> (exn + json) \<times> logger" where
  "load_data ev file_path lg =
     (case open_file ev file_path of
        Inl e \<Rightarrow> load_handlers file_path e lg
      | Inr content \<Rightarrow>
          (case (if endswith file_path ''.yaml'' \<or> endswith file_path ''.yml''
                   then yaml_safe_load ev content
                 else if endswith file_path ''.json'' then json_load ev content
                 else Inl (ValueError ''Unsupported file format.  Must be YAML or JSON.'')) of
             Inl e \<Rightarrow> load_handlers file_path e lg
           | Inr data \<Rightarrow> (Inr data, lg)))"

section \<open>main\<close>

record args =
  policy_file :: string
  data_file :: string
  alert :: bool
  log_level :: loglevel

text \<open>
  How a run of \<open>main\<close> ends: it returns, it leaves through \<open>sys.exit\<close> with a status,
  or an exception that no handler matches leaves it.
\<close>

datatype outcome = Returned | SysExit nat | Uncaught exn

definition main_handlers :: "exn \<Rightarrow> logger \<Rightarrow> outcome \<times> logger" where
  "main_handlers e lg =
     (case e of
        FileNotFoundError filename \<Rightarrow>
          (SysExit 1, logging_error (''File not found: '' @ filename, None) lg)
      | _ \<Rightarrow>
          if is_ValueError e then (SysExit 1, logging_error ([], Some e) lg)
          else if is_Exception e then
            (SysExit 1, logging_error (''An unexpected error occurred: '', Some e) lg)
          else (Uncaught e, lg))"

definition main ::
  "env \<Rightarrow> (json \<Rightarrow> json \<Rightarrow> exn + unit) \<Rightarrow> args \<Rightarrow> logger \<Rightarrow> outcome \<times> logger" where
  "main ev validate a lg0 =
     (let lg = lg0\<lparr>level := log_level a\<rparr> in
      case load_data ev (policy_file a) lg of
        (Inl e, lg1) \<Rightarrow> main_handlers e lg1
      | (Inr policy_data, lg1) \<Rightarrow>
          (case load_data ev (data_file a) lg1 of
             (Inl e, lg2) \<Rightarrow> main_handlers e lg2
           | (Inr system_data, lg2) \<Rightarrow>
               if \<not> truthy policy_data then
                 (SysExit 1, logging_error (''Policy data could not be loaded.'', None) lg2)
               else if \<not> truthy system_data then
                 (SysExit 1, logging_error (''System data could not be loaded.'', None) lg2)
               else
                 (case validate_data validate system_data policy_data lg2 of
                    (Inl e, lg3) \<Rightarrow> main_handlers e lg3
                  | (Inr is_valid, lg3) \<Rightarrow>
                      if is_valid then
                        (Returned,
                         logging_info
                           (''System configuration is compliant with the security policy.'',
                            None) lg3)
                      else
                        (let lg4 = logging_warning (''Policy drift detected!'', None) lg3 in
                         (Returned,
                          if alert a then logging_warning (''Creating alert...'', None) lg4
                          else lg4)))))"

section \<open>The validator behind validate_data\<close>

text \<open>
  \<open>validate\<close> is imported from the \<open>jsonschema\<close> package, which is not part of the
  repository. The functions of this section follow what that package (version 4, with
  its default dialect) does for a policy written with the keywords \<open>type\<close>, \<open>enum\<close>,
  \<open>minimum\<close>, \<open>maximum\<close>, \<open>required\<close>, \<open>properties\<close>, \<open>additionalProperties\<close> and
  \<open>items\<close>, and for a policy that is no mapping at all. The predicate \<open>wf_schema\<close>
  below delimits the mapping policies they cover: outside it their value carries no
  meaning. A policy that uses a keyword the package knows and this section does not
  (\<open>pattern\<close>, \<open>const\<close>, \<open>not\<close>, \<open>maxProperties\<close>, \<open>$ref\<close>, ...) is outside
  \<open>wf_schema\<close>.
\<close>

text \<open>The package's type checker: a Python \<open>bool\<close> is neither an integer nor a number.\<close>

definition is_type :: "json \<Rightarrow> string \<Rightarrow> bool" where
  "is_type instance t =
     (if t = ''array'' then (case instance of JArr _ \<Rightarrow> True | _ \<Rightarrow> False)
      else if t = ''boolean'' then (case instance of JBool _ \<Rightarrow> True | _ \<Rightarrow> False)
      else if t = ''integer'' then (case instance of JInt _ \<Rightarrow> True | _ \<Rightarrow> False)
      else if t = ''null'' then (case instance of JNull \<Rightarrow> True | _ \<Rightarrow> False)
      else if t = ''number'' then (case instance of JInt _ \<Rightarrow> True | _ \<Rightarrow> False)
      else if t = ''object'' then (case instance of JObj _ \<Rightarrow> True | _ \<Rightarrow> False)
      else if t = ''string'' then (case instance of JStr _ \<Rightarrow> True | _ \<Rightarrow> False)
      else False)"

text \<open>
  Equality as \<open>enum\<close> uses it: a boolean never equals a number, lists are compared
  element by element, mappings key by key whatever the order of their keys.
\<close>

function (sequential) equal :: "json \<Rightarrow> json \<Rightarrow> bool" where
  "equal JNull JNull = True"
| "equal (JBool a) (JBool b) = (a = b)"
| "equal (JInt a) (JInt b) = (a = b)"
| "equal (JStr a) (JStr b) = (a = b)"
| "equal (JArr xs) (JArr ys) =
     (length xs = length ys \<and> list_all (\<lambda>(x, y). equal x y) (zip xs ys))"
| "equal (JObj xs) (JObj ys) =
     (length xs = length ys \<and>
      list_all (\<lambda>(k, v). case map_of ys k of None \<Rightarrow> False | Some w \<Rightarrow> equal v w) xs)"
| "equal _ _ = False"
  by pat_completeness auto
termination
proof (relation "measure (\<lambda>(a, b). size a)", goal_cases)
  case 1
  show ?case by simp
next
  case (2 xs ys z x y)
  then have "x \<in> set xs" by (auto dest: set_zip_leftD)
  then have "size x < Suc (size_list size xs)" by (simp add: less_Suc_eq_le size_list_estimation')
  then show ?case by simp
next
  case (3 xs ys z k v w)
  then have "(k, v) \<in> set xs" by simp
  then have "size v < Suc (size_list (size_prod (\<lambda>x. 0) size) xs)"
    by (induction xs) auto
  then show ?case by simp
qed

text \<open>
  A finding of the keyword \<open>k\<close> at the instance being looked at. \<open>descend\<close> puts a key
  or an index in front of the paths of the findings made below it; the finding of a
  subschema \<open>false\<close> is passed on as it is, with no path element.
\<close>

definition failed :: "string \<Rightarrow> verror" where
  "failed k = \<lparr>err_validator = Some k, err_path = []\<rparr>"

definition descend :: "pelem \<Rightarrow> json \<Rightarrow> verror list \<Rightarrow> verror list" where
  "descend p schema errs =
     (if schema = JBool False then errs
      else map (\<lambda>e. e\<lparr>err_path := p # err_path e\<rparr>) errs)"

text \<open>
  One function for each keyword, taking the keyword's value and the instance. A keyword
  that does not apply to the kind of the instance (\<open>minimum\<close> to a string, \<open>required\<close>
  to a list) finds nothing.
\<close>

definition type_kw :: "json \<Rightarrow> json \<Rightarrow> verror list" where
  "type_kw types instance =
     (let ts = (case types of JArr ts \<Rightarrow> ts | _ \<Rightarrow> [types]) in
      if list_ex (\<lambda>t. case t of JStr n \<Rightarrow> is_type instance n | _ \<Rightarrow> False) ts then []
      else [failed ''type''])"

definition enum_kw :: "json \<Rightarrow> json \<Rightarrow> verror list" where
  "enum_kw enums instance =
     (case enums of
        JArr es \<Rightarrow> if list_all (\<lambda>each. \<not> equal each instance) es then [failed ''enum''] else []
      | _ \<Rightarrow> [])"

definition minimum_kw :: "json \<Rightarrow> json \<Rightarrow> verror list" where
  "minimum_kw m instance =
     (case (instance, m) of
        (JInt n, JInt lo) \<Rightarrow> if n < lo then [failed ''minimum''] else []
      | _ \<Rightarrow> [])"

definition maximum_kw :: "json \<Rightarrow> json \<Rightarrow> verror list" where
  "maximum_kw m instance =
     (case (instance, m) of
        (JInt n, JInt hi) \<Rightarrow> if n > hi then [failed ''maximum''] else []
      | _ \<Rightarrow> [])"

definition required_kw :: "json \<Rightarrow> json \<Rightarrow> verror list" where
  "required_kw required instance =
     (case (instance, required) of
        (JObj members, JArr rs) \<Rightarrow>
          concat (map (\<lambda>property.
            case property of
              JStr p \<Rightarrow> if p \<in> set (map fst members) then [] else [failed ''required'']
            | _ \<Rightarrow> []) rs)
      | _ \<Rightarrow> [])"

text \<open>
  The keys of the instance that \<open>properties\<close> of the same schema mapping does not
  mention; \<open>additionalProperties: false\<close> reports one finding when there is any.
\<close>

definition find_additional_properties :: "(string \<times> json) list \<Rightarrow> (string \<times> json) list \<Rightarrow> string list" where
  "find_additional_properties members schema =
     (let properties = (case map_of schema ''properties'' of Some (JObj props) \<Rightarrow> map fst props | _ \<Rightarrow> [])
      in filter (\<lambda>property. property \<notin> set properties) (map fst members))"

definition additionalProperties_kw :: "json \<Rightarrow> json \<Rightarrow> (string \<times> json) list \<Rightarrow> verror list" where
  "additionalProperties_kw aP instance schema =
     (case instance of
        JObj members \<Rightarrow>
          if aP = JBool False \<and> find_additional_properties members schema \<noteq> []
          then [failed ''additionalProperties''] else []
      | _ \<Rightarrow> [])"

text \<open>
  All findings for an instance, in the order of the keywords in the schema mapping, of
  the keys in \<open>properties\<close> and of the indices of a list. The schema \<open>true\<close> accepts
  everything, the schema \<open>false\<close> nothing; a key that is no keyword is skipped.
\<close>

fun iter_errors :: "json \<Rightarrow> json \<Rightarrow> verror list" where
  "iter_errors (JBool b) instance = (if b then [] else [\<lparr>err_validator = None, err_path = []\<rparr>])"
| "iter_errors (JObj kvs) instance =
     concat (map (\<lambda>(k, v).
       if k = ''type'' then type_kw v instance
       else if k = ''enum'' then enum_kw v instance
       else if k = ''minimum'' then minimum_kw v instance
       else if k = ''maximum'' then maximum_kw v instance
       else if k = ''required'' then required_kw v instance
       else if k = ''properties'' then
         (case (v, instance) of
            (JObj props, JObj members) \<Rightarrow>
              concat (map (\<lambda>(p, sub).
                case map_of members p of
                  None \<Rightarrow> []
                | Some x \<Rightarrow> descend (Key p) sub (iter_errors sub x)) props)
          | _ \<Rightarrow> [])
       else if k = ''additionalProperties'' then additionalProperties_kw v instance kvs
       else if k = ''items'' then
         (case instance of
            JArr xs \<Rightarrow>
              concat (map (\<lambda>(i, x). descend (Index i) v (iter_errors v x)) (enumerate 0 xs))
          | _ \<Rightarrow> [])
       else []) kvs)"
| "iter_errors _ instance = []"

text \<open>
  The findings of one keyword of a schema mapping: the body of the loop in \<open>iter_errors\<close>,
  named so that facts can be stated keyword by keyword (\<open>iter_errors_keywords\<close> below).
\<close>

definition keyword_errors :: "(string \<times> json) list \<Rightarrow> json \<Rightarrow> string \<Rightarrow> json \<Rightarrow> verror list" where
  "keyword_errors kvs instance k v =
     (if k = ''type'' then type_kw v instance
       else if k = ''enum'' then enum_kw v instance
       else if k = ''minimum'' then minimum_kw v instance
       else if k = ''maximum'' then maximum_kw v instance
       else if k = ''required'' then required_kw v instance
       else if k = ''properties'' then
         (case (v, instance) of
            (JObj props, JObj members) \<Rightarrow>
              concat (map (\<lambda>(p, sub).
                case map_of members p of
                  None \<Rightarrow> []
                | Some x \<Rightarrow> descend (Key p) sub (iter_errors sub x)) props)
          | _ \<Rightarrow> [])
       else if k = ''additionalProperties'' then additionalProperties_kw v instance kvs
       else if k = ''items'' then
         (case instance of
            JArr xs \<Rightarrow>
              concat (map (\<lambda>(i, x). descend (Index i) v (iter_errors v x)) (enumerate 0 xs))
          | _ \<Rightarrow> [])
       else [])"

text \<open>
  \<open>validate\<close> raises the most relevant finding. How the package ranks several findings
  is left open (the parameter \<open>pick\<close>); a single finding is the one raised.
\<close>

definition best_match :: "(verror list \<Rightarrow> verror) \<Rightarrow> verror list \<Rightarrow> verror option" where
  "best_match pick errors =
     (case errors of [] \<Rightarrow> None | [e] \<Rightarrow> Some e | _ \<Rightarrow> Some (pick errors))"

text \<open>
  \<open>validate(instance, schema)\<close>. The package first tests \<open>"$schema" not in schema\<close>,
  which raises \<open>TypeError\<close> for a number or null and is a substring or membership test
  for a string or a list; then it checks the schema against its meta-schema, which
  admits mappings and booleans only (\<open>SchemaError\<close> otherwise); then it raises the best
  finding, if there is one.
\<close>

fun contains :: "string \<Rightarrow> string \<Rightarrow> bool" where
  "contains needle [] = (needle = [])"
| "contains needle (c # cs) = (take (length needle) (c # cs) = needle \<or> contains needle cs)"

definition jsonschema_validate :: "(verror list \<Rightarrow> verror) \<Rightarrow> json \<Rightarrow> json \<Rightarrow> exn + unit" where
  "jsonschema_validate pick instance schema =
     (case schema of
        JNull \<Rightarrow> Inl (OtherException ''TypeError'')
      | JInt _ \<Rightarrow> Inl (OtherException ''TypeError'')
      | JStr s \<Rightarrow>
          if contains ''$schema'' s then Inl (OtherException ''TypeError'') else Inl SchemaError
      | JArr xs \<Rightarrow>
          if JStr ''$schema'' \<in> set xs then Inl (OtherException ''TypeError'')
          else Inl SchemaError
      | _ \<Rightarrow>
          (case best_match pick (iter_errors schema instance) of
             None \<Rightarrow> Inr ()
           | Some error \<Rightarrow> Inl (ValidationError error)))"

text \<open>
  The keys that mean something to the package: the keywords of its vocabulary, validating
  or not, of the current dialect and of the older ones. A key outside this list is
  ignored, by the check of the schema and by the validation alike.
\<close>

definition vocabulary :: "string list" where
  "vocabulary =
     [''$schema'', ''$id'', ''$ref'', ''$anchor'', ''$dynamicRef'', ''$dynamicAnchor'',
      ''$vocabulary'', ''$comment'', ''$defs'', ''$recursiveAnchor'', ''$recursiveRef'',
      ''id'', ''definitions'', ''dependencies'', ''extends'', ''disallow'', ''divisibleBy'',
      ''prefixItems'', ''items'', ''additionalItems'', ''contains'', ''additionalProperties'',
      ''properties'', ''patternProperties'', ''dependentSchemas'', ''propertyNames'',
      ''if'', ''then'', ''else'', ''allOf'', ''anyOf'', ''oneOf'', ''not'',
      ''unevaluatedItems'', ''unevaluatedProperties'',
      ''type'', ''const'', ''enum'', ''multipleOf'', ''maximum'', ''exclusiveMaximum'',
      ''minimum'', ''exclusiveMinimum'', ''maxLength'', ''minLength'', ''pattern'',
      ''maxItems'', ''minItems'', ''uniqueItems'', ''maxContains'', ''minContains'',
      ''maxProperties'', ''minProperties'', ''required'', ''dependentRequired'',
      ''title'', ''description'', ''default'', ''deprecated'', ''readOnly'', ''writeOnly'',
      ''examples'', ''format'', ''contentEncoding'', ''contentMediaType'',
      ''contentSchema'']"

text \<open>
  The policies covered: a boolean, or a mapping with distinct keys, each of them either a
  keyword modelled above with a value its meta-schema admits, or a key outside the
  vocabulary. \<open>items\<close> is covered for a mapping or \<open>true\<close>, \<open>additionalProperties\<close> for
  a boolean.
\<close>

definition simple_types :: "string list" where
  "simple_types =
     [''array'', ''boolean'', ''integer'', ''null'', ''number'', ''object'', ''string'']"

definition wf_type :: "json \<Rightarrow> bool" where
  "wf_type v =
     (case v of
        JStr t \<Rightarrow> t \<in> set simple_types
      | JArr ts \<Rightarrow>
          ts \<noteq> [] \<and> distinct ts \<and>
          list_all (\<lambda>t. case t of JStr n \<Rightarrow> n \<in> set simple_types | _ \<Rightarrow> False) ts
      | _ \<Rightarrow> False)"

fun wf_schema :: "json \<Rightarrow> bool" where
  "wf_schema (JBool b) = True"
| "wf_schema (JObj kvs) =
     (distinct (map fst kvs) \<and>
      list_all (\<lambda>(k, v).
        if k = ''type'' then wf_type v
        else if k = ''enum'' then (case v of JArr _ \<Rightarrow> True | _ \<Rightarrow> False)
        else if k = ''minimum'' \<or> k = ''maximum'' then (case v of JInt _ \<Rightarrow> True | _ \<Rightarrow> False)
        else if k = ''required'' then
          (case v of
             JArr rs \<Rightarrow>
               distinct rs \<and> list_all (\<lambda>r. case r of JStr _ \<Rightarrow> True | _ \<Rightarrow> False) rs
           | _ \<Rightarrow> False)
        else if k = ''properties'' then
          (case v of
             JObj props \<Rightarrow>
               distinct (map fst props) \<and> list_all (\<lambda>(p, sub). wf_schema sub) props
           | _ \<Rightarrow> False)
        else if k = ''additionalProperties'' then
          (case v of JBool _ \<Rightarrow> True | _ \<Rightarrow> False)
        else if k = ''items'' then
          (case v of JBool b \<Rightarrow> b | JObj _ \<Rightarrow> wf_schema v | _ \<Rightarrow> False)
        else k \<notin> set vocabulary) kvs)"
| "wf_schema _ = False"

section \<open>Example inputs\<close>

text \<open>A file system with two readable files, and a command line naming them.\<close>

definition demo_env :: env where
  "demo_env =
     \<lparr>open_file = (\<lambda>f. Inr []),
      yaml_safe_load = (\<lambda>s. Inr JNull),
      json_load = (\<lambda>s. Inr (JObj [(''port'', JInt 80)]))\<rparr>"

definition demo_args :: args where
  "demo_args =
     \<lparr>policy_file = ''policy.yaml'', data_file = ''config.json'', alert = False,
      log_level = INFO\<rparr>"

definition logger0 :: logger where
  "logger0 = \<lparr>level = INFO, records = []\<rparr>"

text \<open>
  A port policy with a document whose port is out of range, and a one-field policy with
  a document that satisfies it.
\<close>

definition policyA :: json where
  "policyA =
     JObj [(''type'', JStr ''object''),
           (''required'', JArr [JStr ''port'']),
           (''properties'',
            JObj [(''port'',
                   JObj [(''type'', JStr ''number''), (''minimum'', JInt 1),
                         (''maximum'', JInt 65535)])])]"

definition dataA :: json where
  "dataA = JObj [(''port'', JInt 70000)]"

definition policyD :: json where
  "policyD =
     JObj [(''type'', JStr ''object''),
           (''properties'', JObj [(''x'', JObj [(''type'', JStr ''string'')])])]"

definition dataD :: json where
  "dataD = JObj [(''x'', JStr ''ok'')]"

text \<open>A policy that closes its mapping with \<open>additionalProperties: false\<close>.\<close>

definition closed_policy :: json where
  "closed_policy =
     JObj [(''type'', JStr ''object''),
           (''properties'', JObj [(''port'', JObj [(''type'', JStr ''number'')])]),
           (''additionalProperties'', JBool False)]"

text \<open>A policy that lists the one mapping it admits.\<close>

definition enum_policy :: json where
  "enum_policy = JObj [(''enum'', JArr [JObj [(''port'', JInt 80)]])]"

text \<open>A policy mapping that carries notes only: none of its keys is in the vocabulary.\<close>

definition annotated_policy :: json where
  "annotated_policy = JObj [(''owner'', JStr ''ops''), (''x-ticket'', JInt 4711)]"

text \<open>A logger whose level lets no \<open>ERROR\<close> record through.\<close>

definition critical_logger :: logger where
  "critical_logger = \<lparr>level = CRITICAL, records = []\<rparr>"

text \<open>A bare scalar: a document that is neither a mapping nor a list.\<close>

fun is_scalar :: "json \<Rightarrow> bool" where
  "is_scalar (JArr _) = False"
| "is_scalar (JObj _) = False"
| "is_scalar _ = True"

section \<open>main: documents that load but are empty\<close>

lemma load_demo_policy:
  "load_data demo_env (policy_file demo_args) (logger0\<lparr>level := log_level demo_args\<rparr>) =
     (Inr JNull, logger0)"
  by (simp add: load_data_def demo_env_def demo_args_def logger0_def endswith_def)

lemma load_demo_data:
  "load_data demo_env (data_file demo_args) logger0 = (Inr (JObj [(''port'', JInt 80)]), logger0)"
  by (simp add: load_data_def demo_env_def demo_args_def logger0_def endswith_def)

text \<open>
  C10. When both files load and parse, and the policy or the data is falsy in Python's
  sense (null, false, 0, an empty string, list or mapping), \<open>main\<close> logs one error and
  leaves through \<open>sys.exit(1)\<close>. The result does not mention \<open>validate\<close>: it is the same
  for every validator, so no validation takes part in it.
\<close>

theorem main_falsy_document_exits:
  assumes "load_data ev (policy_file a) (lg0\<lparr>level := log_level a\<rparr>) = (Inr p, lg1)"
    and "load_data ev (data_file a) lg1 = (Inr d, lg2)"
    and "\<not> truthy p \<or> \<not> truthy d"
  shows "main ev validate a lg0 =
           (SysExit 1,
            logging_error
              (if \<not> truthy p then ''Policy data could not be loaded.''
               else ''System data could not be loaded.'', None) lg2)
         \<and> main ev validate a lg0 = main ev validate' a lg0"
  using assms by (auto simp: main_def Let_def)

theorem main_falsy_document_exits_witness:
  "main demo_env (\<lambda>d s. Inr ()) demo_args logger0 =
     (SysExit 1,
      \<lparr>level = INFO, records = [(ERROR, (''Policy data could not be loaded.'', None))]\<rparr>)"
  using main_falsy_document_exits [OF load_demo_policy load_demo_data, of "\<lambda>d s. Inr ()"]
  by (simp add: logging_error_def emit_def logger0_def)

section \<open>Facts about the validator\<close>

lemmas kw_defs = type_kw_def enum_kw_def minimum_kw_def maximum_kw_def required_kw_def
  additionalProperties_kw_def find_additional_properties_def is_type_def failed_def descend_def

lemma jsonschema_validate_Exception:
  "jsonschema_validate pick d s = Inl e \<Longrightarrow> is_Exception e"
  by (auto simp: jsonschema_validate_def split: json.splits if_splits option.splits)

lemma jsonschema_validate_wf:
  "wf_schema s \<Longrightarrow>
   jsonschema_validate pick d s =
     (case best_match pick (iter_errors s d) of
        None \<Rightarrow> Inr ()
      | Some e \<Rightarrow> Inl (ValidationError e))"
  by (cases s) (simp_all add: jsonschema_validate_def)

lemma best_match_None: "best_match pick errs = None \<longleftrightarrow> errs = []"
  by (auto simp: best_match_def split: list.splits)

lemma wf_policyA: "wf_schema policyA"
  by (simp add: policyA_def wf_type_def simple_types_def)

lemma errors_A:
  "iter_errors policyA dataA =
     [\<lparr>err_validator = Some ''maximum'', err_path = [Key ''port'']\<rparr>]"
  by (simp add: policyA_def dataA_def kw_defs)

lemma validate_D: "jsonschema_validate pick dataD policyD = Inr ()"
  by (simp add: policyD_def dataD_def kw_defs jsonschema_validate_def best_match_def)

lemma verdict_wf:
  assumes "wf_schema s"
  shows "fst (validate_data (jsonschema_validate pick) d s lg) = Inr (iter_errors s d = [])"
proof (cases "best_match pick (iter_errors s d)")
  case None
  then show ?thesis
    using best_match_None [of pick "iter_errors s d"]
    by (simp add: validate_data_def jsonschema_validate_wf [OF assms])
next
  case (Some e)
  then show ?thesis
    using best_match_None [of pick "iter_errors s d"]
    by (simp add: validate_data_def jsonschema_validate_wf [OF assms])
qed

lemma iter_errors_keywords:
  "iter_errors (JObj kvs) instance = concat (map (\<lambda>(k, v). keyword_errors kvs instance k v) kvs)"
  unfolding keyword_errors_def by simp

lemma is_type_object: "is_type (JObj m) = (\<lambda>t. t = ''object'')"
  by (rule ext) (simp add: is_type_def)

lemma type_kw_object: "type_kw t (JObj m') = type_kw t (JObj m)"
  by (simp add: type_kw_def is_type_object)

lemma required_kw_extra:
  "required_kw r (JObj m) = [] \<Longrightarrow> required_kw r (JObj (m @ [(k, v)])) = []"
  by (auto simp: required_kw_def split: json.splits if_splits)

lemma map_of_extra: "p \<noteq> k \<Longrightarrow> map_of (m @ [(k, v)]) p = map_of m p"
  by (simp add: map_add_def split: option.splits)

lemma properties_extra:
  assumes "k \<notin> set (map fst props)"
  shows "concat (map (\<lambda>(p, sub).
            case map_of (m @ [(k, v)]) p of
              None \<Rightarrow> []
            | Some x \<Rightarrow> descend (Key p) sub (iter_errors sub x)) props) =
         concat (map (\<lambda>(p, sub).
            case map_of m p of
              None \<Rightarrow> []
            | Some x \<Rightarrow> descend (Key p) sub (iter_errors sub x)) props)"
proof -
  have "\<And>p sub. (p, sub) \<in> set props \<Longrightarrow> map_of (m @ [(k, v)]) p = map_of m p"
  proof -
    fix p sub
    assume "(p, sub) \<in> set props"
    then have "p \<in> set (map fst props)" by force
    with assms have "p \<noteq> k" by blast
    then show "map_of (m @ [(k, v)]) p = map_of m p" by (rule map_of_extra)
  qed
  then show ?thesis
    by (intro arg_cong [where f = concat] map_cong) auto
qed

lemma wf_additionalProperties:
  assumes "wf_schema (JObj kvs)" and "(''additionalProperties'', val) \<in> set kvs"
  shows "\<exists>b. val = JBool b"
proof -
  note inst = assms(1) [unfolded wf_schema.simps list_all_iff, THEN conjunct2, THEN bspec,
      OF assms(2)]
  from inst show ?thesis by (cases val) simp_all
qed


lemma modelled_in_vocabulary:
  "set [''type'', ''enum'', ''minimum'', ''maximum'', ''required'', ''properties'',
        ''additionalProperties'', ''items''] \<subseteq> set vocabulary"
  by (simp add: vocabulary_def)

lemma outside_vocabulary:
  assumes "k \<notin> set vocabulary"
  shows "k \<noteq> ''type''" "k \<noteq> ''enum''" "k \<noteq> ''minimum''" "k \<noteq> ''maximum''"
    "k \<noteq> ''required''" "k \<noteq> ''properties''" "k \<noteq> ''additionalProperties''"
    "k \<noteq> ''items''"
  using assms modelled_in_vocabulary by auto

lemma keyword_errors_outside_vocabulary:
  "k \<notin> set vocabulary \<Longrightarrow> keyword_errors kvs d k v = []"
  by (simp add: keyword_errors_def outside_vocabulary)

lemma wf_schema_outside_vocabulary:
  "k \<notin> set vocabulary \<Longrightarrow> wf_schema (JObj [(k, v)])"
  by (simp add: outside_vocabulary)

lemma wf_schema_each:
  "wf_schema (JObj kvs) \<longleftrightarrow>
     distinct (map fst kvs) \<and> (\<forall>(k, v) \<in> set kvs. wf_schema (JObj [(k, v)]))"
  by (simp add: list_all_iff case_prod_beta)

section \<open>validate_data always answers\<close>

text \<open>
  C1. Whenever \<open>validate\<close> returns or raises an exception derived from \<open>Exception\<close>
  (a \<open>ValidationError\<close> for a shape mismatch, a \<open>SchemaError\<close>, anything else),
  \<open>validate_data\<close> returns a verdict: no exception leaves it.
\<close>

theorem validate_data_returns_verdict:
  assumes "\<And>e. validate data schema = Inl e \<Longrightarrow> is_Exception e"
  shows "\<exists>b lg'. validate_data validate data schema lg = (Inr b, lg')"
  using assms by (auto simp: validate_data_def split: sum.splits)

text \<open>A list checked against the port policy, which wants a mapping.\<close>

theorem validate_data_returns_verdict_witness:
  "\<forall>pick. \<exists>b lg'.
     validate_data (jsonschema_validate pick) (JArr []) policyA logger0 = (Inr b, lg')"
proof
  fix pick
  show "\<exists>b lg'.
     validate_data (jsonschema_validate pick) (JArr []) policyA logger0 = (Inr b, lg')"
    by (rule validate_data_returns_verdict) (rule jsonschema_validate_Exception)
qed

section \<open>The verdict and the violations\<close>




section \<open>A policy that is a bare scalar\<close>

text \<open>
  C3, as the code has it. For a bare scalar policy \<open>validate_data\<close> raises nothing and
  returns an ordinary verdict. For the boolean \<open>true\<close>, the schema that accepts every
  document, the verdict is \<open>True\<close> and nothing is logged. For every other scalar
  \<open>validate\<close> raises, the verdict is \<open>False\<close>, and the log gains exactly one
  \<open>ERROR\<close> record carrying that exception when the logger's level admits \<open>ERROR\<close>; at
  a higher level the log stays as it was.
\<close>

theorem scalar_policy_gets_verdict:
  assumes "is_scalar s"
  shows "(s = JBool True \<longrightarrow>
            validate_data (jsonschema_validate pick) d s lg = (Inr True, lg)) \<and>
         (s \<noteq> JBool True \<longrightarrow>
            (\<exists>prefix e.
               jsonschema_validate pick d s = Inl e \<and>
               validate_data (jsonschema_validate pick) d s lg =
                 (Inr False,
                  if levelno (level lg) \<le> levelno ERROR
                  then lg\<lparr>records := records lg @ [(ERROR, (prefix, Some e))]\<rparr>
                  else lg)))"
  using assms
  by (cases s)
    (auto simp: jsonschema_validate_def validate_data_def best_match_def logging_error_def
      emit_def)

theorem scalar_policy_gets_verdict_witness:
  "\<forall>pick.
     validate_data (jsonschema_validate pick) dataA (JBool True) logger0 = (Inr True, logger0) \<and>
     (\<exists>prefix e.
        validate_data (jsonschema_validate pick) dataA (JStr ''strict'') logger0 =
          (Inr False, \<lparr>level = INFO, records = [(ERROR, (prefix, Some e))]\<rparr>)) \<and>
     validate_data (jsonschema_validate pick) dataA (JStr ''strict'') critical_logger =
       (Inr False, critical_logger)"
proof
  fix pick
  have 1: "validate_data (jsonschema_validate pick) dataA (JBool True) logger0
             = (Inr True, logger0)"
    using scalar_policy_gets_verdict [of "JBool True" pick dataA logger0] by simp
  have 2: "\<exists>prefix e.
        validate_data (jsonschema_validate pick) dataA (JStr ''strict'') logger0 =
          (Inr False, \<lparr>level = INFO, records = [(ERROR, (prefix, Some e))]\<rparr>)"
    using scalar_policy_gets_verdict [of "JStr ''strict''" pick dataA logger0]
    by (auto simp: logger0_def)
  have 3: "validate_data (jsonschema_validate pick) dataA (JStr ''strict'') critical_logger =
       (Inr False, critical_logger)"
    using scalar_policy_gets_verdict [of "JStr ''strict''" pick dataA critical_logger]
    by (auto simp: critical_logger_def)
  show "validate_data (jsonschema_validate pick) dataA (JBool True) logger0 = (Inr True, logger0) \<and>
     (\<exists>prefix e.
        validate_data (jsonschema_validate pick) dataA (JStr ''strict'') logger0 =
          (Inr False, \<lparr>level = INFO, records = [(ERROR, (prefix, Some e))]\<rparr>)) \<and>
     validate_data (jsonschema_validate pick) dataA (JStr ''strict'') critical_logger =
       (Inr False, critical_logger)"
    using 1 2 3 by blast
qed

text \<open>
  C3 as stated fails: the string policy gives the verdict \<open>False\<close> and one logged error,
  the policy \<open>true\<close> gives the verdict \<open>True\<close>; neither run ends in an error.
\<close>

theorem scalar_policy_counterexample:
  "\<forall>pick.
     validate_data (jsonschema_validate pick) dataA (JStr ''strict'') logger0 =
       (Inr False,
        \<lparr>level = INFO, records = [(ERROR, (''Schema Error: '', Some SchemaError))]\<rparr>) \<and>
     validate_data (jsonschema_validate pick) dataA (JBool True) logger0 = (Inr True, logger0)"
  by (simp add: jsonschema_validate_def validate_data_def best_match_def logging_error_def
      emit_def logger0_def)

section \<open>What validate_data does besides returning\<close>

text \<open>
  C5, as the code has it. \<open>validate_data\<close> never changes the logger's level; when the
  document validates it leaves the logger as it was; when validation fails with an
  exception it catches, and the level admits \<open>ERROR\<close>, it appends exactly one \<open>ERROR\<close>
  record, which carries the exception.
\<close>

theorem validate_data_effects:
  "level (snd (validate_data validate d s lg)) = level lg \<and>
   (validate d s = Inr () \<longrightarrow> snd (validate_data validate d s lg) = lg) \<and>
   (\<forall>e. validate d s = Inl e \<and> is_Exception e \<and> levelno (level lg) \<le> levelno ERROR \<longrightarrow>
      (\<exists>prefix. records (snd (validate_data validate d s lg)) =
         records lg @ [(ERROR, (prefix, Some e))]))"
  by (auto simp: validate_data_def logging_error_def emit_def split: sum.splits)

theorem validate_data_effects_witness:
  "\<forall>pick.
     snd (validate_data (jsonschema_validate pick) dataD policyD logger0) = logger0 \<and>
     (\<exists>prefix. records (snd (validate_data (jsonschema_validate pick) dataA policyA logger0)) =
        [(ERROR, (prefix, Some (ValidationError
           \<lparr>err_validator = Some ''maximum'', err_path = [Key ''port'']\<rparr>)))])"
proof
  fix pick
  let ?e = "ValidationError \<lparr>err_validator = Some ''maximum'', err_path = [Key ''port'']\<rparr>"
  have a: "jsonschema_validate pick dataA policyA = Inl ?e \<and> is_Exception ?e
             \<and> levelno (level logger0) \<le> levelno ERROR"
    by (simp add: jsonschema_validate_wf wf_policyA errors_A best_match_def logger0_def)
  have 1: "snd (validate_data (jsonschema_validate pick) dataD policyD logger0) = logger0"
    using validate_data_effects [of "jsonschema_validate pick" dataD policyD logger0]
      validate_D [of pick]
    by blast
  obtain prefix where
    "records (snd (validate_data (jsonschema_validate pick) dataA policyA logger0)) =
       records logger0 @ [(ERROR, (prefix, Some ?e))]"
    using validate_data_effects [of "jsonschema_validate pick" dataA policyA logger0] a by blast
  then have 2:
    "\<exists>prefix. records (snd (validate_data (jsonschema_validate pick) dataA policyA logger0)) =
       [(ERROR, (prefix, Some ?e))]"
    by (auto simp: logger0_def)
  show "snd (validate_data (jsonschema_validate pick) dataD policyD logger0) = logger0 \<and>
     (\<exists>prefix. records (snd (validate_data (jsonschema_validate pick) dataA policyA logger0)) =
        [(ERROR, (prefix, Some ?e))])"
    using 1 2 by simp
qed

text \<open>
  C5 as stated fails: checking the out-of-range port writes a log record, so the logger
  after the call is not the logger before it.
\<close>

theorem validate_data_logs_counterexample:
  "\<forall>pick.
     snd (validate_data (jsonschema_validate pick) dataA policyA logger0) =
       \<lparr>level = INFO,
        records =
          [(ERROR, (''Validation Error: '',
             Some (ValidationError
               \<lparr>err_validator = Some ''maximum'', err_path = [Key ''port'']\<rparr>)))]\<rparr> \<and>
     snd (validate_data (jsonschema_validate pick) dataA policyA logger0) \<noteq> logger0"
  by (simp add: wf_policyA errors_A jsonschema_validate_wf validate_data_def best_match_def
      logging_error_def emit_def logger0_def)

section \<open>The verdict and the logger\<close>

text \<open>
  The verdict of \<open>validate_data\<close> does not depend on what the logger holds when the
  call starts; started at the same level, two calls also append the same records.
\<close>

lemma verdict_independent_of_logger:
  "fst (validate_data validate d s lg1) = fst (validate_data validate d s lg2) \<and>
   (level lg1 = level lg2 \<longrightarrow>
      drop (length (records lg1)) (records (snd (validate_data validate d s lg1))) =
      drop (length (records lg2)) (records (snd (validate_data validate d s lg2))))"
  by (auto simp: validate_data_def logging_error_def emit_def split: sum.splits)

section \<open>Policies without constraints\<close>

text \<open>
  C7, as the code has it. A policy mapping with distinct keys, none of them in the
  validator's vocabulary, matches anything: for every document the validator finds
  nothing and \<open>validate_data\<close> returns \<open>True\<close> without logging. The empty mapping is
  such a policy. The vocabulary holds the eight keys \<open>type\<close>, \<open>required\<close>,
  \<open>properties\<close>, \<open>items\<close>, \<open>enum\<close>, \<open>pattern\<close>, \<open>minimum\<close>, \<open>maximum\<close> and the
  validator's further keywords (\<open>additionalProperties\<close>, \<open>const\<close>, \<open>not\<close>, ...).
\<close>

theorem open_policy_matches_anything:
  assumes "distinct (map fst kvs)" and "\<forall>k \<in> set (map fst kvs). k \<notin> set vocabulary"
  shows "wf_schema (JObj kvs) \<and> iter_errors (JObj kvs) d = [] \<and>
         validate_data (jsonschema_validate pick) d (JObj kvs) lg = (Inr True, lg)"
proof -
  have out: "k \<notin> set vocabulary" if "(k, v) \<in> set kvs" for k v
    using assms(2) that by force
  have "wf_schema (JObj [(k, v)])" if "(k, v) \<in> set kvs" for k v
    using out [OF that] by (rule wf_schema_outside_vocabulary)
  with assms(1) have wf: "wf_schema (JObj kvs)"
    unfolding wf_schema_each [of kvs] by blast
  have "keyword_errors kvs d k v = []" if "(k, v) \<in> set kvs" for k v
    using out [OF that] by (rule keyword_errors_outside_vocabulary)
  then have none: "iter_errors (JObj kvs) d = []"
    unfolding iter_errors_keywords by auto
  have "jsonschema_validate pick d (JObj kvs) = Inr ()"
    unfolding jsonschema_validate_wf [OF wf] none by (simp add: best_match_def)
  then have "validate_data (jsonschema_validate pick) d (JObj kvs) lg = (Inr True, lg)"
    by (simp add: validate_data_def)
  with wf none show ?thesis by blast
qed

theorem open_policy_matches_anything_witness:
  "\<forall>pick.
     validate_data (jsonschema_validate pick) dataA annotated_policy logger0 = (Inr True, logger0) \<and>
     validate_data (jsonschema_validate pick) dataA (JObj []) logger0 = (Inr True, logger0)"
proof
  fix pick
  have d: "distinct (map fst [(''owner'', JStr ''ops''), (''x-ticket'', JInt 4711)])" by simp
  have v: "\<forall>k \<in> set (map fst [(''owner'', JStr ''ops''), (''x-ticket'', JInt 4711)]).
             k \<notin> set vocabulary"
    by (simp add: vocabulary_def)
  have e: "distinct (map fst ([] :: (string \<times> json) list))
             \<and> (\<forall>k \<in> set (map fst ([] :: (string \<times> json) list)). k \<notin> set vocabulary)"
    by simp
  from open_policy_matches_anything [OF d v, of dataA pick logger0]
    open_policy_matches_anything [of "[]" dataA pick logger0] e
  show "validate_data (jsonschema_validate pick) dataA annotated_policy logger0 = (Inr True, logger0) \<and>
     validate_data (jsonschema_validate pick) dataA (JObj []) logger0 = (Inr True, logger0)"
    by (simp add: annotated_policy_def)
qed

text \<open>
  C7 as stated fails: the policy \<open>{additionalProperties: false}\<close> has none of the keys
  \<open>type\<close>, \<open>required\<close>, \<open>properties\<close>, \<open>items\<close>, \<open>enum\<close>, \<open>pattern\<close>, \<open>minimum\<close>,
  \<open>maximum\<close>, and it rejects the document \<open>{port: 70000}\<close>.
\<close>

theorem open_policy_counterexample:
  "\<forall>pick.
     wf_schema (JObj [(''additionalProperties'', JBool False)]) \<and>
     iter_errors (JObj [(''additionalProperties'', JBool False)]) dataA =
       [\<lparr>err_validator = Some ''additionalProperties'', err_path = []\<rparr>] \<and>
     fst (validate_data (jsonschema_validate pick) dataA
            (JObj [(''additionalProperties'', JBool False)]) logger0) = Inr False"
  by (simp add: dataA_def kw_defs jsonschema_validate_def validate_data_def best_match_def)

section \<open>Fields the policy does not mention\<close>

lemma keyword_extra:
  assumes wf: "wf_schema (JObj kvs)"
    and noenum: "map_of kvs ''enum'' = None"
    and open_world: "map_of kvs ''additionalProperties'' \<noteq> Some (JBool False)"
    and fresh: "\<forall>props. map_of kvs ''properties'' = Some (JObj props) \<longrightarrow> k \<notin> set (map fst props)"
    and mem: "(kw, val) \<in> set kvs"
    and old: "keyword_errors kvs (JObj m) kw val = []"
  shows "keyword_errors kvs (JObj (m @ [(k, v)])) kw val = []"
proof -
  from wf have dist: "distinct (map fst kvs)" by simp
  from dist mem have look: "map_of kvs kw = Some val" by simp
  consider (ty) "kw = ''type''" | (en) "kw = ''enum''" | (mi) "kw = ''minimum''"
    | (ma) "kw = ''maximum''" | (re) "kw = ''required''" | (pr) "kw = ''properties''"
    | (ap) "kw = ''additionalProperties''" | (it) "kw = ''items''"
    | (other) "kw \<noteq> ''type''" "kw \<noteq> ''enum''" "kw \<noteq> ''minimum''" "kw \<noteq> ''maximum''"
        "kw \<noteq> ''required''" "kw \<noteq> ''properties''" "kw \<noteq> ''additionalProperties''"
        "kw \<noteq> ''items''"
    by blast
  then show ?thesis
  proof cases
    case ty
    from old have "type_kw val (JObj m) = []" by (simp add: keyword_errors_def ty)
    then have "type_kw val (JObj (m @ [(k, v)])) = []"
      by (simp add: type_kw_object [of val "m @ [(k, v)]" m])
    then show ?thesis by (simp add: keyword_errors_def ty)
  next
    case en
    with look noenum show ?thesis by simp
  next
    case mi
    then show ?thesis by (simp add: keyword_errors_def minimum_kw_def)
  next
    case ma
    then show ?thesis by (simp add: keyword_errors_def maximum_kw_def)
  next
    case re
    from old have "required_kw val (JObj m) = []" by (simp add: keyword_errors_def re)
    then have "required_kw val (JObj (m @ [(k, v)])) = []" by (rule required_kw_extra)
    then show ?thesis by (simp add: keyword_errors_def re)
  next
    case pr
    show ?thesis
    proof (cases val)
      case (JObj props)
      with pr look fresh have "k \<notin> set (map fst props)" by blast
      from properties_extra [OF this, of m v] old show ?thesis
        by (simp add: keyword_errors_def pr JObj)
    qed (simp_all add: keyword_errors_def pr)
  next
    case ap
    with wf mem obtain b where b: "val = JBool b" using wf_additionalProperties by blast
    with ap look open_world have "b" by auto
    with b show ?thesis by (simp add: keyword_errors_def ap additionalProperties_kw_def)
  next
    case it
    then show ?thesis by (simp add: keyword_errors_def)
  next
    case other
    then show ?thesis by (simp add: keyword_errors_def)
  qed
qed

lemma extra_field_no_errors:
  assumes wf: "wf_schema (JObj kvs)"
    and noenum: "map_of kvs ''enum'' = None"
    and open_world: "map_of kvs ''additionalProperties'' \<noteq> Some (JBool False)"
    and fresh: "\<forall>props. map_of kvs ''properties'' = Some (JObj props) \<longrightarrow> k \<notin> set (map fst props)"
    and old: "iter_errors (JObj kvs) (JObj m) = []"
  shows "iter_errors (JObj kvs) (JObj (m @ [(k, v)])) = []"
proof -
  have "keyword_errors kvs (JObj (m @ [(k, v)])) kw val = []" if mem: "(kw, val) \<in> set kvs" for kw val
  proof -
    from old mem have "keyword_errors kvs (JObj m) kw val = []"
      unfolding iter_errors_keywords by fastforce
    with wf noenum open_world fresh mem show ?thesis by (rule keyword_extra)
  qed
  then show ?thesis unfolding iter_errors_keywords by auto
qed

text \<open>
  C4, as the code has it. Let the policy be a mapping that \<open>wf_schema\<close> covers: built
  from the keywords \<open>type\<close>, \<open>enum\<close>, \<open>minimum\<close>, \<open>maximum\<close>, \<open>required\<close>,
  \<open>properties\<close>, \<open>items\<close> and a boolean \<open>additionalProperties\<close>, and from keys outside
  the vocabulary. Let its root have no \<open>enum\<close> and not set \<open>additionalProperties\<close> to
  \<open>false\<close>. If a data mapping is compliant, it stays compliant when a key is added that
  the data did not have and that the root's \<open>properties\<close> does not mention.
\<close>

theorem extra_field_keeps_compliant:
  assumes "wf_schema (JObj kvs)"
    and "map_of kvs ''enum'' = None"
    and "map_of kvs ''additionalProperties'' \<noteq> Some (JBool False)"
    and "\<forall>props. map_of kvs ''properties'' = Some (JObj props) \<longrightarrow> k \<notin> set (map fst props)"
    and "k \<notin> set (map fst members)"
    and "fst (validate_data (jsonschema_validate pick) (JObj members) (JObj kvs) lg) = Inr True"
  shows "iter_errors (JObj kvs) (JObj (members @ [(k, v)])) = [] \<and>
         fst (validate_data (jsonschema_validate pick) (JObj (members @ [(k, v)])) (JObj kvs) lg)
           = Inr True"
proof -
  from assms(1,6) have "iter_errors (JObj kvs) (JObj members) = []"
    by (simp add: verdict_wf)
  with assms(1-4) have "iter_errors (JObj kvs) (JObj (members @ [(k, v)])) = []"
    by (rule extra_field_no_errors)
  with assms(1) show ?thesis by (simp add: verdict_wf)
qed

theorem extra_field_keeps_compliant_witness:
  "\<forall>pick.
     fst (validate_data (jsonschema_validate pick) (JObj [(''x'', JStr ''ok'')])
            (JObj [(''type'', JStr ''object''),
                   (''properties'', JObj [(''x'', JObj [(''type'', JStr ''string'')])])])
            logger0) = Inr True \<and>
     fst (validate_data (jsonschema_validate pick)
            (JObj [(''x'', JStr ''ok''), (''extra'', JInt 1)])
            (JObj [(''type'', JStr ''object''),
                   (''properties'', JObj [(''x'', JObj [(''type'', JStr ''string'')])])])
            logger0) = Inr True"
proof
  fix pick
  let ?kvs = "[(''type'', JStr ''object''),
               (''properties'', JObj [(''x'', JObj [(''type'', JStr ''string'')])])]"
  have wf: "wf_schema (JObj ?kvs)" by (simp add: wf_type_def simple_types_def)
  have h2: "map_of ?kvs ''enum'' = None" by simp
  have h3: "map_of ?kvs ''additionalProperties'' \<noteq> Some (JBool False)" by simp
  have h4: "\<forall>props. map_of ?kvs ''properties'' = Some (JObj props) \<longrightarrow>
              ''extra'' \<notin> set (map fst props)" by simp
  have h5: "''extra'' \<notin> set (map fst [(''x'', JStr ''ok'')])" by simp
  have h6: "fst (validate_data (jsonschema_validate pick) (JObj [(''x'', JStr ''ok'')])
              (JObj ?kvs) logger0) = Inr True"
    by (simp add: kw_defs jsonschema_validate_def validate_data_def best_match_def)
  from extra_field_keeps_compliant [OF wf h2 h3 h4 h5 h6, of "JInt 1"] h6
  show "fst (validate_data (jsonschema_validate pick) (JObj [(''x'', JStr ''ok'')])
            (JObj ?kvs) logger0) = Inr True \<and>
     fst (validate_data (jsonschema_validate pick)
            (JObj [(''x'', JStr ''ok''), (''extra'', JInt 1)]) (JObj ?kvs) logger0) = Inr True"
    by simp
qed

text \<open>
  C4 as stated fails. Under a policy with \<open>additionalProperties: false\<close> the document
  \<open>{port: 80}\<close> is compliant, and adding the field \<open>debug\<close>, which \<open>properties\<close> does
  not mention, makes it drift. The same happens under a policy whose \<open>enum\<close> lists the
  mapping \<open>{port: 80}\<close>.
\<close>

theorem extra_field_counterexample:
  "\<forall>pick.
     wf_schema closed_policy \<and>
     fst (validate_data (jsonschema_validate pick) (JObj [(''port'', JInt 80)]) closed_policy
            logger0) = Inr True \<and>
     fst (validate_data (jsonschema_validate pick)
            (JObj [(''port'', JInt 80), (''debug'', JBool True)]) closed_policy logger0) = Inr False \<and>
     wf_schema enum_policy \<and>
     fst (validate_data (jsonschema_validate pick) (JObj [(''port'', JInt 80)]) enum_policy
            logger0) = Inr True \<and>
     fst (validate_data (jsonschema_validate pick)
            (JObj [(''port'', JInt 80), (''debug'', JBool True)]) enum_policy logger0) = Inr False"
  by (simp add: closed_policy_def enum_policy_def kw_defs wf_type_def simple_types_def
      jsonschema_validate_def validate_data_def best_match_def)

section \<open>The two scenarios\<close>

text \<open>
  C8. For the port policy and the document \<open>{port: 70000}\<close> the validator finds exactly
  one violation, of the range keyword \<open>maximum\<close> at the path \<open>["port"]\<close>;
  \<open>validate_data\<close> returns \<open>False\<close> and logs that violation in one \<open>ERROR\<close> record.
\<close>

theorem scenario_A:
  "wf_schema policyA \<and>
   iter_errors policyA dataA =
     [\<lparr>err_validator = Some ''maximum'', err_path = [Key ''port'']\<rparr>] \<and>
   validate_data (jsonschema_validate pick) dataA policyA logger0 =
     (Inr False,
      \<lparr>level = INFO,
       records =
         [(ERROR, (''Validation Error: '',
            Some (ValidationError
              \<lparr>err_validator = Some ''maximum'', err_path = [Key ''port'']\<rparr>)))]\<rparr>)"
  by (simp add: wf_policyA errors_A jsonschema_validate_wf validate_data_def best_match_def
      logging_error_def emit_def logger0_def)

text \<open>
  C9. For the policy \<open>{type: object, properties: {x: {type: string}}}\<close> and the document
  \<open>{x: "ok"}\<close> the validator finds no violation and \<open>validate_data\<close> returns \<open>True\<close>,
  logging nothing.
\<close>

theorem scenario_D:
  "wf_schema policyD \<and> iter_errors policyD dataD = [] \<and>
   validate_data (jsonschema_validate pick) dataD policyD lg = (Inr True, lg)"
  by (simp add: policyD_def dataD_def kw_defs wf_type_def simple_types_def
      jsonschema_validate_def validate_data_def best_match_def)

end
